theory Spec2Isabelle
  imports Main "HOL-Library.AList" "HOL-Library.Word"
begin

section \<open>The Parameter Bridge of pyOpenMS/Param.pyx\<close>

text \<open>
  The two functions of \<^verbatim>\<open>src/pyOpenMS/Param.pyx\<close> convert between the native
  parameter container \<^verbatim>\<open>Param\<close> (key to \<^verbatim>\<open>DataValue\<close>) and a Python 2 dictionary.
  The embedding follows the Cython text line by line: the C casts \<^verbatim>\<open>(long)\<close>,
  \<^verbatim>\<open>(int)\<close>, \<^verbatim>\<open>(char *)\<close> are functions with their range written out, the
  pointer \<^verbatim>\<open>dv\<close> is an optional address into an explicit heap, and every exit of a
  function (return, exception, dereference of an unassigned pointer) is a value.
\<close>

subsection \<open>C strings and C integers\<close>

text \<open>
  A Python 2 \<^verbatim>\<open>str\<close> and a \<^verbatim>\<open>std::string\<close> are byte sequences. Whatever passes
  through a \<^verbatim>\<open>char *\<close> (lines 16, 18, 20, 40 and the constructor \<^verbatim>\<open>string(char *)\<close> of
  line 41) ends at the first NUL byte.
\<close>

definition nul_free :: "string \<Rightarrow> bool" where
  "nul_free s = (CHR 0x00 \<notin> set s)"

definition c_str :: "string \<Rightarrow> string" where
  "c_str s = takeWhile (\<lambda>c. c \<noteq> CHR 0x00) s"

text \<open>
  The website (\<^verbatim>\<open>src/website/index.rst\<close>) names the two platforms: 32 bit Windows, where
  a C \<^verbatim>\<open>long\<close> has 32 bits, and 64 bit Ubuntu, where it has 64. A C \<^verbatim>\<open>int\<close> has 32
  bits on both.
\<close>

datatype data_model = LONG32 | LONG64

fun long_bits :: "data_model \<Rightarrow> nat" where
  "long_bits LONG32 = 32"
| "long_bits LONG64 = 64"

definition int_bits :: nat where
  "int_bits = 32"

definition fits :: "nat \<Rightarrow> int \<Rightarrow> bool" where
  "fits w n = (- (2 ^ (w - 1)) \<le> n \<and> n < 2 ^ (w - 1))"

text \<open>Narrowing to a signed integer of \<open>w\<close> bits (two's complement).\<close>

definition narrow :: "nat \<Rightarrow> int \<Rightarrow> int" where
  "narrow w n = (n + 2 ^ (w - 1)) mod 2 ^ w - 2 ^ (w - 1)"

subsection \<open>Python values\<close>

text \<open>
  A \<^verbatim>\<open>float\<close> is a C double; it is carried as its 64 bit pattern and never computed
  with. \<open>PyInt n\<close> is the Python integer \<open>n\<close>: an \<^verbatim>\<open>int\<close> when it fits a C long, a
  \<^verbatim>\<open>long\<close> otherwise. \<open>PyNone\<close> and \<open>PyList\<close> stand for the values that are none of
  the tested types.
\<close>

type_synonym double = "64 word"

datatype pyobj =
    PyInt int
  | PyBool bool
  | PyFloat double
  | PyStr string
  | PyNone
  | PyList "pyobj list"

datatype pytype = py_int | py_long | py_float | py_str

text \<open>\<^verbatim>\<open>bool\<close> is a subclass of \<^verbatim>\<open>int\<close> in Python.\<close>

fun isinstance :: "data_model \<Rightarrow> pyobj \<Rightarrow> pytype \<Rightarrow> bool" where
  "isinstance dm (PyInt n) py_int = fits (long_bits dm) n"
| "isinstance dm (PyInt n) py_long = (\<not> fits (long_bits dm) n)"
| "isinstance dm (PyBool b) py_int = True"
| "isinstance dm (PyFloat d) py_float = True"
| "isinstance dm (PyStr s) py_str = True"
| "isinstance dm v t = False"

text \<open>A dictionary, as \<^verbatim>\<open>dd.items()\<close> enumerates it; the keys are distinct.\<close>

type_synonym pydict = "(string \<times> pyobj) list"

definition setitem :: "string \<Rightarrow> pyobj \<Rightarrow> pydict \<Rightarrow> pydict" where
  "setitem k v d = AList.update k v d"

text \<open>
  \<open>OverflowError\<close> is what the cast of line 36 raises for an integer outside the range
  of a C long. \<open>TypeErrorMsg t\<close> is a TypeError with the text \<open>t\<close>. \<open>TypeError\<close> (its text
  is not modelled), \<open>ConversionError\<close> and \<open>ElementNotFound\<close> are what the casts and the
  lookup give outside the tests under which the source calls them.
\<close>

datatype pyexc =
    OverflowError
  | TypeError
  | TypeErrorMsg string
  | ConversionError
  | ElementNotFound

text \<open>
  The statement \<^verbatim>\<open>raise s\<close> with a \<^verbatim>\<open>str\<close> operand, as at line 22. A string is not
  an exception class: the compiled statement raises a TypeError that says so, and the
  text \<open>s\<close> is lost.
\<close>

definition raise_str :: "string \<Rightarrow> pyexc" where
  "raise_str s = TypeErrorMsg ''raise: exception class must be a subclass of BaseException''"

text \<open>
  How a call ends: it returns a value, it is left with an exception, or it reads through
  a pointer that was never assigned, after which C++ defines nothing.
\<close>

datatype 'a outcome = Return 'a | Raise pyexc | Undefined

subsection \<open>The native side\<close>

text \<open>
  Modelled from the spec: \<^verbatim>\<open>DataValue.pxd\<close> and \<^verbatim>\<open>Param.pxd\<close> are not among the
  sources. A tagged value carries text, an integer or a real; \<open>DataValue_other\<close> is a
  value with any further tag of the native library. The three constructors used by the
  source are \<^verbatim>\<open>DataValue(long)\<close>, \<^verbatim>\<open>DataValue(double)\<close> and \<^verbatim>\<open>DataValue(char *)\<close>. The
  container maps unique keys to tagged values.
\<close>

datatype DataType = STRING_VALUE | INT_VALUE | DOUBLE_VALUE | OTHER_VALUE nat

datatype DataValue =
    DataValue_long int
  | DataValue_double double
  | DataValue_chars string
  | DataValue_other nat

fun valueType :: "DataValue \<Rightarrow> DataType" where
  "valueType (DataValue_chars s) = STRING_VALUE"
| "valueType (DataValue_long n) = INT_VALUE"
| "valueType (DataValue_double d) = DOUBLE_VALUE"
| "valueType (DataValue_other t) = OTHER_VALUE t"

type_synonym Param = "(string \<times> DataValue) list"

definition getKeys :: "Param \<Rightarrow> string list" where
  "getKeys p = map fst p"

definition getValue :: "Param \<Rightarrow> string \<Rightarrow> DataValue option" where
  "getValue p k = map_of p k"

definition setValue :: "string \<Rightarrow> DataValue \<Rightarrow> Param \<Rightarrow> Param" where
  "setValue k v p = AList.update k v p"

text \<open>\<^verbatim>\<open>val.toChar()\<close>, \<^verbatim>\<open><int> val\<close> and \<^verbatim>\<open><double> val\<close> of lines 16 to 20.\<close>

fun toChar :: "DataValue \<Rightarrow> pyobj outcome" where
  "toChar (DataValue_chars s) = Return (PyStr (c_str s))"
| "toChar v = Raise ConversionError"

fun cast_int :: "DataValue \<Rightarrow> pyobj outcome" where
  "cast_int (DataValue_long n) = Return (PyInt (narrow int_bits n))"
| "cast_int v = Raise ConversionError"

fun cast_double :: "DataValue \<Rightarrow> pyobj outcome" where
  "cast_double (DataValue_double d) = Return (PyFloat d)"
| "cast_double v = Raise ConversionError"

text \<open>\<^verbatim>\<open><long>(value)\<close>, \<^verbatim>\<open><double>(value)\<close> and \<^verbatim>\<open><char *>value\<close> of lines 36 to 40.\<close>

fun as_long :: "data_model \<Rightarrow> pyobj \<Rightarrow> int outcome" where
  "as_long dm (PyInt n) = (if fits (long_bits dm) n then Return n else Raise OverflowError)"
| "as_long dm (PyBool b) = Return (if b then 1 else 0)"
| "as_long dm v = Raise TypeError"

fun as_double :: "pyobj \<Rightarrow> double outcome" where
  "as_double (PyFloat d) = Return d"
| "as_double v = Raise TypeError"

fun as_chars :: "pyobj \<Rightarrow> string outcome" where
  "as_chars (PyStr s) = Return (c_str s)"
| "as_chars v = Raise TypeError"

subsection \<open>The heap of native objects\<close>

text \<open>
  \<^verbatim>\<open>new\<close> returns the next address; \<^verbatim>\<open>del\<close> empties the cell. A cell that holds
  \<open>Some\<close> object is live.
\<close>

datatype obj = DataValueObj DataValue | StringObj string

type_synonym heap = "obj option list"

definition new_obj :: "heap \<Rightarrow> obj \<Rightarrow> nat \<times> heap" where
  "new_obj h ob = (length h, h @ [Some ob])"

definition del_obj :: "heap \<Rightarrow> nat \<Rightarrow> heap" where
  "del_obj h a = h[a := None]"

definition deref :: "heap \<Rightarrow> nat \<Rightarrow> obj option" where
  "deref h a = (if a < length h then h ! a else None)"

definition live :: "heap \<Rightarrow> obj list" where
  "live h = concat (map (\<lambda>c. case c of None \<Rightarrow> [] | Some ob \<Rightarrow> [ob]) h)"

text \<open>The same three ways, for a statement inside a loop.\<close>

datatype status = Normal | Raised pyexc | WildDeref

subsection \<open>paramToDict (lines 6 to 25)\<close>

record p2d_state =
  p2d_p :: Param
  p2d_rv :: pydict

text \<open>The chain of tests of lines 15 to 22.\<close>

definition p2d_convert :: "DataValue \<Rightarrow> pyobj outcome" where
  "p2d_convert val =
     (if valueType val = STRING_VALUE then toChar val
      else if valueType val = INT_VALUE then cast_int val
      else if valueType val = DOUBLE_VALUE then cast_double val
      else Raise (raise_str ''not implemented !''))"

definition p2d_body :: "string \<Rightarrow> p2d_state \<Rightarrow> status \<times> p2d_state" where
  "p2d_body skey st =
     (case getValue (p2d_p st) skey of
        None \<Rightarrow> (Raised ElementNotFound, st)
      | Some val \<Rightarrow>
          (case p2d_convert val of
             Return v \<Rightarrow> (Normal, st\<lparr>p2d_rv := setitem (c_str skey) v (p2d_rv st)\<rparr>)
           | Raise e \<Rightarrow> (Raised e, st)
           | Undefined \<Rightarrow> (WildDeref, st)))"

fun p2d_loop :: "string list \<Rightarrow> p2d_state \<Rightarrow> status \<times> p2d_state" where
  "p2d_loop [] st = (Normal, st)"
| "p2d_loop (skey # keys) st =
     (case p2d_body skey st of
        (Normal, st') \<Rightarrow> p2d_loop keys st'
      | r \<Rightarrow> r)"

definition paramToDict_exec :: "Param \<Rightarrow> status \<times> p2d_state" where
  "paramToDict_exec p = p2d_loop (getKeys p) \<lparr>p2d_p = p, p2d_rv = []\<rparr>"

definition paramToDict :: "Param \<Rightarrow> pydict outcome" where
  "paramToDict p =
     (case paramToDict_exec p of
        (Normal, st) \<Rightarrow> Return (p2d_rv st)
      | (Raised e, st) \<Rightarrow> Raise e
      | (WildDeref, st) \<Rightarrow> Undefined)"

subsection \<open>dictToParam (lines 30 to 44)\<close>

record d2p_state =
  d2p_dd :: pydict
  d2p_p :: Param
  d2p_dv :: "nat option"
  d2p_temps :: "nat option"
  d2p_heap :: heap

text \<open>\<^verbatim>\<open>dv = new DataValue(...)\<close>\<close>

definition new_dv :: "DataValue \<Rightarrow> d2p_state \<Rightarrow> d2p_state" where
  "new_dv d st =
     (case new_obj (d2p_heap st) (DataValueObj d) of
        (a, h) \<Rightarrow> st\<lparr>d2p_dv := Some a, d2p_heap := h\<rparr>)"

text \<open>Lines 35 and 36, lines 37 and 38, lines 39 and 40: three tests, none an \<^verbatim>\<open>elif\<close>.\<close>

definition if_int :: "data_model \<Rightarrow> pyobj \<Rightarrow> d2p_state \<Rightarrow> status \<times> d2p_state" where
  "if_int dm v st =
     (if isinstance dm v py_int \<or> isinstance dm v py_long
      then (case as_long dm v of
              Return n \<Rightarrow> (Normal, new_dv (DataValue_long n) st)
            | Raise e \<Rightarrow> (Raised e, st)
            | Undefined \<Rightarrow> (WildDeref, st))
      else (Normal, st))"

definition if_float :: "data_model \<Rightarrow> pyobj \<Rightarrow> d2p_state \<Rightarrow> status \<times> d2p_state" where
  "if_float dm v st =
     (if isinstance dm v py_float
      then (case as_double v of
              Return d \<Rightarrow> (Normal, new_dv (DataValue_double d) st)
            | Raise e \<Rightarrow> (Raised e, st)
            | Undefined \<Rightarrow> (WildDeref, st))
      else (Normal, st))"

definition if_str :: "data_model \<Rightarrow> pyobj \<Rightarrow> d2p_state \<Rightarrow> status \<times> d2p_state" where
  "if_str dm v st =
     (if isinstance dm v py_str
      then (case as_chars v of
              Return s \<Rightarrow> (Normal, new_dv (DataValue_chars s) st)
            | Raise e \<Rightarrow> (Raised e, st)
            | Undefined \<Rightarrow> (WildDeref, st))
      else (Normal, st))"

text \<open>
  Lines 41 to 43: \<^verbatim>\<open>temps = new string(key)\<close>, \<^verbatim>\<open>p.setValue(deref(temps), deref(dv))\<close>,
  \<^verbatim>\<open>del temps\<close>. The container stores a copy of the value. There is no \<^verbatim>\<open>del dv\<close>.
\<close>

definition store :: "string \<Rightarrow> d2p_state \<Rightarrow> status \<times> d2p_state" where
  "store key st =
     (case new_obj (d2p_heap st) (StringObj (c_str key)) of
        (a, h) \<Rightarrow>
          (let st1 = st\<lparr>d2p_temps := Some a, d2p_heap := h\<rparr> in
           case d2p_dv st1 of
             None \<Rightarrow> (WildDeref, st1)
           | Some b \<Rightarrow>
               (case deref h b of
                  Some (DataValueObj d) \<Rightarrow>
                    (Normal, st1\<lparr>d2p_p := setValue (c_str key) d (d2p_p st1),
                                 d2p_heap := del_obj h a\<rparr>)
                | Some (StringObj s) \<Rightarrow> (WildDeref, st1)
                | None \<Rightarrow> (WildDeref, st1))))"

definition and_then ::
  "status \<times> d2p_state \<Rightarrow> (d2p_state \<Rightarrow> status \<times> d2p_state) \<Rightarrow> status \<times> d2p_state" where
  "and_then r f = (case r of (Normal, st) \<Rightarrow> f st | (Raised e, st) \<Rightarrow> r | (WildDeref, st) \<Rightarrow> r)"

definition d2p_body :: "data_model \<Rightarrow> string \<times> pyobj \<Rightarrow> d2p_state \<Rightarrow> status \<times> d2p_state" where
  "d2p_body dm kv st =
     (case kv of (key, v) \<Rightarrow>
        and_then (and_then (and_then (if_int dm v st) (if_float dm v)) (if_str dm v)) (store key))"

fun d2p_loop :: "data_model \<Rightarrow> (string \<times> pyobj) list \<Rightarrow> d2p_state \<Rightarrow> status \<times> d2p_state" where
  "d2p_loop dm [] st = (Normal, st)"
| "d2p_loop dm (kv # rest) st =
     (case d2p_body dm kv st of
        (Normal, st') \<Rightarrow> d2p_loop dm rest st'
      | r \<Rightarrow> r)"

text \<open>
  \<open>h\<close> is the heap at the call: \<^verbatim>\<open>p\<close> starts empty, \<^verbatim>\<open>dv\<close> and \<^verbatim>\<open>temps\<close> start
  unassigned.
\<close>

definition dictToParam_exec :: "data_model \<Rightarrow> heap \<Rightarrow> pydict \<Rightarrow> status \<times> d2p_state" where
  "dictToParam_exec dm h dd =
     d2p_loop dm dd \<lparr>d2p_dd = dd, d2p_p = [], d2p_dv = None, d2p_temps = None, d2p_heap = h\<rparr>"

text \<open>
  Line 30 declares \<^verbatim>\<open>cdef Param dictToParam(dict dd)\<close>: the return type is a C++ class
  and there is no \<^verbatim>\<open>except\<close> clause. An exception raised inside cannot leave such a
  function: it is written out as unraisable, and the call returns a default, empty
  \<^verbatim>\<open>Param\<close>, not the \<^verbatim>\<open>p\<close> built so far. (paramToDict returns a Python object, and its
  exceptions reach the caller.)
\<close>

definition dictToParam :: "data_model \<Rightarrow> heap \<Rightarrow> pydict \<Rightarrow> Param outcome" where
  "dictToParam dm h dd =
     (case dictToParam_exec dm h dd of
        (Normal, st) \<Rightarrow> Return (d2p_p st)
      | (Raised e, st) \<Rightarrow> Return []
      | (WildDeref, st) \<Rightarrow> Undefined)"

subsection \<open>Notions used in the statements\<close>

text \<open>The scalar kinds of the specification, on both sides.\<close>

datatype kind = Text | Integer | Real

fun kind_of_py :: "pyobj \<Rightarrow> kind option" where
  "kind_of_py (PyStr s) = Some Text"
| "kind_of_py (PyInt n) = Some Integer"
| "kind_of_py (PyFloat d) = Some Real"
| "kind_of_py v = None"

fun kind_of_dv :: "DataValue \<Rightarrow> kind option" where
  "kind_of_dv (DataValue_chars s) = Some Text"
| "kind_of_dv (DataValue_long n) = Some Integer"
| "kind_of_dv (DataValue_double d) = Some Real"
| "kind_of_dv (DataValue_other t) = None"

text \<open>A value that passes at least one of the tests of lines 35, 37 and 39.\<close>

definition tested :: "data_model \<Rightarrow> pyobj \<Rightarrow> bool" where
  "tested dm v =
     (isinstance dm v py_int \<or> isinstance dm v py_long \<or> isinstance dm v py_float
      \<or> isinstance dm v py_str)"

text \<open>
  What lines 35 to 40 construct for a value, when they construct anything without
  raising; what lines 15 to 20 store for a tagged value, when they store anything.
  Both are shown below to agree with the code (\<open>d2p_body_constructed\<close>,
  \<open>p2d_body_cases\<close>).
\<close>

fun constructed :: "data_model \<Rightarrow> pyobj \<Rightarrow> DataValue option" where
  "constructed dm (PyInt n) = (if fits (long_bits dm) n then Some (DataValue_long n) else None)"
| "constructed dm (PyBool b) = Some (DataValue_long (if b then 1 else 0))"
| "constructed dm (PyFloat d) = Some (DataValue_double d)"
| "constructed dm (PyStr s) = Some (DataValue_chars (c_str s))"
| "constructed dm v = None"

fun returned :: "DataValue \<Rightarrow> pyobj option" where
  "returned (DataValue_chars s) = Some (PyStr (c_str s))"
| "returned (DataValue_long n) = Some (PyInt (narrow int_bits n))"
| "returned (DataValue_double d) = Some (PyFloat d)"
| "returned (DataValue_other t) = None"

definition all_constructed :: "data_model \<Rightarrow> pydict \<Rightarrow> bool" where
  "all_constructed dm xs = list_all (\<lambda>kv. constructed dm (snd kv) \<noteq> None) xs"

definition built :: "data_model \<Rightarrow> pydict \<Rightarrow> Param \<Rightarrow> Param" where
  "built dm xs p0 =
     fold (\<lambda>kv. setValue (c_str (fst kv)) (the (constructed dm (snd kv)))) xs p0"

definition allocs :: "data_model \<Rightarrow> pydict \<Rightarrow> heap" where
  "allocs dm xs =
     concat (map (\<lambda>kv. [Some (DataValueObj (the (constructed dm (snd kv)))), None]) xs)"

definition supported_at :: "Param \<Rightarrow> string \<Rightarrow> bool" where
  "supported_at p k = (case map_of p k of None \<Rightarrow> False | Some d \<Rightarrow> returned d \<noteq> None)"

definition read_back :: "Param \<Rightarrow> string list \<Rightarrow> pydict \<Rightarrow> pydict" where
  "read_back p ks rv0 =
     fold (\<lambda>k. setitem (c_str k) (the (returned (the (map_of p k))))) ks rv0"

text \<open>An integer that the cast of line 36 refuses.\<close>

fun overflows :: "data_model \<Rightarrow> pyobj \<Rightarrow> bool" where
  "overflows dm (PyInt n) = (\<not> fits (long_bits dm) n)"
| "overflows dm v = False"


text \<open>The object that \<^verbatim>\<open>dv\<close> points to, if it points to one.\<close>

definition dv_target :: "d2p_state \<Rightarrow> obj option" where
  "dv_target st = (case d2p_dv st of None \<Rightarrow> None | Some b \<Rightarrow> deref (d2p_heap st) b)"

text \<open>
  A value that both sides hold without loss: an integer in the range of a C int, a
  float, a text without NUL byte.
\<close>

fun exact :: "pyobj \<Rightarrow> bool" where
  "exact (PyInt n) = fits int_bits n"
| "exact (PyFloat d) = True"
| "exact (PyStr s) = nul_free s"
| "exact v = False"

text \<open>Mapping to container and back.\<close>

definition roundtrip :: "data_model \<Rightarrow> heap \<Rightarrow> pydict \<Rightarrow> pydict outcome" where
  "roundtrip dm h m =
     (case dictToParam dm h m of
        Return p \<Rightarrow> paramToDict p
      | Raise e \<Rightarrow> Raise e
      | Undefined \<Rightarrow> Undefined)"

section \<open>Properties of the model\<close>

subsection \<open>Casts and association lists\<close>

lemma narrow_fits: "fits int_bits n \<Longrightarrow> narrow int_bits n = n"
  by (simp add: fits_def narrow_def int_bits_def)

lemma fits_int_long: "fits int_bits n \<Longrightarrow> fits (long_bits dm) n"
  by (cases dm) (simp_all add: fits_def int_bits_def)

lemma c_str_nul_free: "nul_free s \<Longrightarrow> c_str s = s"
  by (auto simp: nul_free_def c_str_def takeWhile_eq_all_conv)

lemma nul_free_c_str: "nul_free (c_str s)"
  unfolding nul_free_def c_str_def using set_takeWhileD by fastforce

lemma update_fresh: "k \<notin> fst ` set al \<Longrightarrow> AList.update k v al = al @ [(k, v)]"
  by (induction al) auto

lemma d2p_body_constructed:
  assumes "constructed dm v = Some d"
  shows "d2p_body dm (k, v) st =
    (Normal, \<lparr>d2p_dd = d2p_dd st, d2p_p = setValue (c_str k) d (d2p_p st),
              d2p_dv = Some (length (d2p_heap st)),
              d2p_temps = Some (Suc (length (d2p_heap st))),
              d2p_heap = d2p_heap st @ [Some (DataValueObj d), None]\<rparr>)"
  using assms
  by (cases v)
     (auto simp: d2p_body_def and_then_def if_int_def if_float_def if_str_def store_def
        new_dv_def new_obj_def deref_def del_obj_def nth_append list_update_append
        split: if_splits)

lemma d2p_body_overflow:
  assumes "\<not> fits (long_bits dm) n"
  shows "d2p_body dm (k, PyInt n) st = (Raised OverflowError, st)"
  using assms by (simp add: d2p_body_def and_then_def if_int_def)



lemma tested_constructed: "constructed dm v = Some d \<Longrightarrow> tested dm v"
  by (cases v) (auto simp: tested_def split: if_splits)

lemma untested_constructed: "\<not> tested dm v \<Longrightarrow> constructed dm v = None"
  by (cases v) (auto simp: tested_def split: if_splits)


lemma p2d_convert_returned:
  "p2d_convert val =
     (case returned val of Some v \<Rightarrow> Return v
      | None \<Rightarrow> Raise (raise_str ''not implemented !''))"
  by (cases val) (simp_all add: p2d_convert_def)

lemma fold_update_fresh:
  "distinct (map fst ys) \<Longrightarrow> fst ` set ys \<inter> fst ` set al = {} \<Longrightarrow>
   fold (\<lambda>kv. AList.update (fst kv) (snd kv)) ys al = al @ ys"
proof (induction ys arbitrary: al)
  case Nil
  then show ?case by simp
next
  case (Cons y ys)
  have fresh: "fst y \<notin> fst ` set al" using Cons.prems(2) by auto
  have "fst ` set ys \<inter> fst ` set (al @ [y]) = {}"
    using Cons.prems by auto
  with Cons.IH [of "al @ [y]"] Cons.prems(1) fresh show ?case
    by (cases y) (simp add: update_fresh)
qed

lemma fold_update_keys:
  "fst ` set (fold (\<lambda>kv. AList.update (f kv) (g kv)) ys al) = f ` set ys \<union> fst ` set al"
  by (induction ys arbitrary: al) (simp_all add: dom_update Un_ac)

subsection \<open>dictToParam: the loop\<close>

lemma d2p_loop_append:
  "d2p_loop dm (xs @ ys) st =
     (case d2p_loop dm xs st of (Normal, st') \<Rightarrow> d2p_loop dm ys st' | r \<Rightarrow> r)"
  by (induction xs arbitrary: st) (auto split: prod.splits status.splits)

lemma and_then_dd:
  assumes "d2p_dd (snd r) = x" "\<And>s. d2p_dd (snd (f s)) = d2p_dd s"
  shows "d2p_dd (snd (and_then r f)) = x"
  using assms by (cases r) (auto simp: and_then_def split: status.splits)

lemma if_int_dd: "d2p_dd (snd (if_int dm v st)) = d2p_dd st"
  by (simp add: if_int_def new_dv_def new_obj_def split: outcome.splits)

lemma if_float_dd: "d2p_dd (snd (if_float dm v st)) = d2p_dd st"
  by (simp add: if_float_def new_dv_def new_obj_def split: outcome.splits)

lemma if_str_dd: "d2p_dd (snd (if_str dm v st)) = d2p_dd st"
  by (simp add: if_str_def new_dv_def new_obj_def split: outcome.splits)

lemma store_dd: "d2p_dd (snd (store key st)) = d2p_dd st"
  by (simp add: store_def new_obj_def Let_def split: option.splits obj.splits)

lemma d2p_body_dd: "d2p_dd (snd (d2p_body dm kv st)) = d2p_dd st"
  unfolding d2p_body_def
  by (cases kv) (simp add: and_then_dd if_int_dd if_float_dd if_str_dd store_dd)

lemma d2p_loop_dd: "d2p_dd (snd (d2p_loop dm xs st)) = d2p_dd st"
proof (induction xs arbitrary: st)
  case Nil
  then show ?case by simp
next
  case (Cons kv xs)
  obtain r st1 where b: "d2p_body dm kv st = (r, st1)" by (cases "d2p_body dm kv st")
  have "d2p_dd st1 = d2p_dd st" using d2p_body_dd [of dm kv st] b by simp
  with Cons.IH [of st1] b show ?case by (cases r) simp_all
qed


lemma d2p_body_Normal_p:
  assumes "d2p_body dm (k, v) st = (Normal, st')"
  shows "\<exists>d. d2p_p st' = setValue (c_str k) d (d2p_p st)"
  using assms
  by (auto simp: d2p_body_def and_then_def if_int_def if_float_def if_str_def store_def
        new_dv_def new_obj_def Let_def
        split: if_splits outcome.splits option.splits obj.splits prod.splits status.splits)

lemma d2p_loop_keep:
  assumes "d2p_loop dm ys st = (Normal, st')" "k' \<notin> c_str ` fst ` set ys"
  shows "map_of (d2p_p st') k' = map_of (d2p_p st) k'"
  using assms
proof (induction ys arbitrary: st)
  case Nil
  then show ?case by simp
next
  case (Cons kv ys)
  obtain k v where kv: "kv = (k, v)" by (cases kv)
  obtain r st1 where b: "d2p_body dm (k, v) st = (r, st1)" by (cases "d2p_body dm (k, v) st")
  have r: "r = Normal" using Cons.prems(1) b kv by (cases r) simp_all
  then obtain d where d: "d2p_p st1 = setValue (c_str k) d (d2p_p st)"
    using d2p_body_Normal_p b by blast
  have ne: "k' \<noteq> c_str k" using Cons.prems(2) kv by auto
  have "d2p_loop dm ys st1 = (Normal, st')" using Cons.prems(1) b kv r by simp
  moreover have "k' \<notin> c_str ` fst ` set ys" using Cons.prems(2) by auto
  ultimately have "map_of (d2p_p st') k' = map_of (d2p_p st1) k'" by (rule Cons.IH)
  also have "\<dots> = map_of (d2p_p st) k'" using d ne by (simp add: setValue_def update_conv')
  finally show ?case .
qed

lemma d2p_loop_constructed:
  assumes "all_constructed dm xs"
  shows "\<exists>st'. d2p_loop dm xs st = (Normal, st')
           \<and> d2p_p st' = built dm xs (d2p_p st)
           \<and> d2p_heap st' = d2p_heap st @ allocs dm xs
           \<and> (xs \<noteq> [] \<longrightarrow>
                dv_target st' = Some (DataValueObj (the (constructed dm (snd (last xs))))))"
  using assms
proof (induction xs arbitrary: st)
  case Nil
  then show ?case by (simp add: built_def allocs_def)
next
  case (Cons kv xs)
  obtain k v where kv: "kv = (k, v)" by (cases kv)
  from Cons.prems kv obtain d where d: "constructed dm v = Some d"
    by (auto simp: all_constructed_def)
  define st1 where "st1 =
    \<lparr>d2p_dd = d2p_dd st, d2p_p = setValue (c_str k) d (d2p_p st),
     d2p_dv = Some (length (d2p_heap st)),
     d2p_temps = Some (Suc (length (d2p_heap st))),
     d2p_heap = d2p_heap st @ [Some (DataValueObj d), None]\<rparr>"
  have b: "d2p_body dm (k, v) st = (Normal, st1)"
    unfolding st1_def by (rule d2p_body_constructed [OF d])
  have t1: "dv_target st1 = Some (DataValueObj d)"
    by (simp add: st1_def dv_target_def deref_def nth_append)
  have "all_constructed dm xs" using Cons.prems by (simp add: all_constructed_def)
  from Cons.IH [OF this, of st1] obtain st' where
    l: "d2p_loop dm xs st1 = (Normal, st')"
    and p: "d2p_p st' = built dm xs (d2p_p st1)"
    and h: "d2p_heap st' = d2p_heap st1 @ allocs dm xs"
    and t: "xs \<noteq> [] \<longrightarrow>
          dv_target st' = Some (DataValueObj (the (constructed dm (snd (last xs)))))"
    by blast
  have t': "dv_target st' = Some (DataValueObj (the (constructed dm (snd (last (kv # xs))))))"
  proof (cases "xs = []")
    case True
    with l t1 d kv show ?thesis by simp
  next
    case False
    with t show ?thesis by simp
  qed
  show ?case
    using b l p h t' d kv
    by (simp add: st1_def built_def allocs_def)
qed

lemma setValue_fun: "setValue k v = AList.update k v"
  by (rule ext) (simp add: setValue_def)

lemma setitem_fun: "setitem k v = AList.update k v"
  by (rule ext) (simp add: setitem_def)

lemma built_fresh:
  assumes "distinct (map fst xs)" "list_all (\<lambda>kv. nul_free (fst kv)) xs"
  shows "built dm xs [] = map (\<lambda>kv. (fst kv, the (constructed dm (snd kv)))) xs"
proof -
  let ?h = "\<lambda>kv. (c_str (fst kv), the (constructed dm (snd kv)))"
  have keys: "map ?h xs = map (\<lambda>kv. (fst kv, the (constructed dm (snd kv)))) xs"
    using assms(2) by (induction xs) (simp_all add: c_str_nul_free)
  have "built dm xs [] = fold (\<lambda>kv. AList.update (fst kv) (snd kv)) (map ?h xs) []"
    by (simp add: built_def setValue_fun fold_map comp_def)
  also have "\<dots> = [] @ map ?h xs"
  proof (rule fold_update_fresh)
    show "distinct (map fst (map ?h xs))"
      using assms(1) by (simp add: keys comp_def)
  qed simp
  finally show ?thesis by (simp add: keys)
qed

lemma built_keys: "fst ` set (built dm xs p0) = c_str ` fst ` set xs \<union> fst ` set p0"
  unfolding built_def setValue_fun
  by (simp add: fold_update_keys [of "\<lambda>kv. c_str (fst kv)"] image_image)


subsection \<open>paramToDict: the loop\<close>

lemma p2d_body_cases:
  "p2d_body k st =
     (case map_of (p2d_p st) k of
        None \<Rightarrow> (Raised ElementNotFound, st)
      | Some d \<Rightarrow>
          (case returned d of
             Some v \<Rightarrow> (Normal, st\<lparr>p2d_rv := setitem (c_str k) v (p2d_rv st)\<rparr>)
           | None \<Rightarrow> (Raised (raise_str ''not implemented !''), st)))"
  by (simp add: p2d_body_def getValue_def p2d_convert_returned split: option.splits)

lemma p2d_body_p: "p2d_p (snd (p2d_body k st)) = p2d_p st"
  by (simp add: p2d_body_cases split: option.splits)

lemma p2d_loop_p: "p2d_p (snd (p2d_loop ks st)) = p2d_p st"
proof (induction ks arbitrary: st)
  case Nil
  then show ?case by simp
next
  case (Cons k ks)
  obtain r st1 where b: "p2d_body k st = (r, st1)" by (cases "p2d_body k st")
  have "p2d_p st1 = p2d_p st" using p2d_body_p [of k st] b by simp
  with Cons.IH [of st1] b show ?case by (cases r) simp_all
qed



lemma p2d_loop_supported:
  assumes "list_all (supported_at (p2d_p st)) ks"
  shows "p2d_loop ks st = (Normal, st\<lparr>p2d_rv := read_back (p2d_p st) ks (p2d_rv st)\<rparr>)"
  using assms
proof (induction ks arbitrary: st)
  case Nil
  then show ?case by (simp add: read_back_def)
next
  case (Cons k ks)
  from Cons.prems obtain d v where d: "map_of (p2d_p st) k = Some d" and v: "returned d = Some v"
    by (auto simp: supported_at_def split: option.splits)
  let ?st1 = "st\<lparr>p2d_rv := setitem (c_str k) v (p2d_rv st)\<rparr>"
  have b: "p2d_body k st = (Normal, ?st1)" using d v by (simp add: p2d_body_cases)
  have "list_all (supported_at (p2d_p ?st1)) ks" using Cons.prems by simp
  from Cons.IH [OF this] b d v show ?case by (simp add: read_back_def)
qed

lemma p2d_loop_unsupported:
  assumes "list_all (\<lambda>k. map_of (p2d_p st) k \<noteq> None) ks"
    and "k \<in> set ks" "\<not> supported_at (p2d_p st) k"
  shows "fst (p2d_loop ks st) = Raised (raise_str ''not implemented !'')"
  using assms
proof (induction ks arbitrary: st)
  case Nil
  then show ?case by simp
next
  case (Cons k0 ks)
  from Cons.prems(1) obtain d where d: "map_of (p2d_p st) k0 = Some d" by auto
  show ?case
  proof (cases "returned d")
    case None
    with d show ?thesis by (simp add: p2d_body_cases)
  next
    case (Some v)
    let ?st1 = "st\<lparr>p2d_rv := setitem (c_str k0) v (p2d_rv st)\<rparr>"
    have b: "p2d_body k0 st = (Normal, ?st1)" using d Some by (simp add: p2d_body_cases)
    have "k \<noteq> k0" using Cons.prems(3) d Some by (auto simp: supported_at_def)
    then have k: "k \<in> set ks" using Cons.prems(2) by simp
    have "fst (p2d_loop ks ?st1) = Raised (raise_str ''not implemented !'')"
      using Cons.prems(1,3) k by (intro Cons.IH) simp_all
    with b show ?thesis by simp
  qed
qed

lemma read_back_fresh:
  assumes "distinct (map fst p)" "list_all (\<lambda>kd. nul_free (fst kd)) p"
  shows "read_back p (map fst p) [] = map (\<lambda>kd. (fst kd, the (returned (snd kd)))) p"
proof -
  let ?h = "\<lambda>kd. (c_str (fst kd), the (returned (the (map_of p (fst kd)))))"
  have look: "map_of p (fst kd) = Some (snd kd)" if "kd \<in> set p" for kd
  proof -
    have "(fst kd, snd kd) \<in> set p" using that by simp
    then show ?thesis by (rule map_of_is_SomeI [OF assms(1)])
  qed
  have nf: "nul_free (fst kd)" if "kd \<in> set p" for kd
    using that assms(2) by (simp add: list_all_iff)
  have keys: "map ?h p = map (\<lambda>kd. (fst kd, the (returned (snd kd)))) p"
    by (rule map_cong) (simp_all add: look nf c_str_nul_free)
  have "read_back p (map fst p) [] = fold (\<lambda>kv. AList.update (fst kv) (snd kv)) (map ?h p) []"
    by (simp add: read_back_def setitem_fun fold_map comp_def)
  also have "\<dots> = [] @ map ?h p"
  proof (rule fold_update_fresh)
    show "distinct (map fst (map ?h p))"
      using assms(1) by (simp add: keys comp_def)
  qed simp
  finally show ?thesis by (simp add: keys)
qed

subsection \<open>Whole calls\<close>

lemma dictToParam_constructed:
  assumes "all_constructed dm m"
  shows "dictToParam dm h m = Return (built dm m [])"
proof -
  let ?st0 = "\<lparr>d2p_dd = m, d2p_p = [], d2p_dv = None, d2p_temps = None, d2p_heap = h\<rparr>"
  from d2p_loop_constructed [OF assms, of ?st0] obtain st' where
    "d2p_loop dm m ?st0 = (Normal, st')" "d2p_p st' = built dm m []"
    by auto
  then show ?thesis by (simp add: dictToParam_def dictToParam_exec_def)
qed

lemma returned_kind: "(returned d \<noteq> None) = (kind_of_dv d \<noteq> None)"
  by (cases d) simp_all

lemma paramToDict_supported:
  assumes "distinct (map fst p)" "list_all (\<lambda>kd. returned (snd kd) \<noteq> None) p"
  shows "paramToDict p = Return (read_back p (map fst p) [])"
proof -
  have "supported_at p (fst kd)" if "kd \<in> set p" for kd
  proof -
    have "(fst kd, snd kd) \<in> set p" using that by simp
    then have "map_of p (fst kd) = Some (snd kd)" by (rule map_of_is_SomeI [OF assms(1)])
    moreover have "returned (snd kd) \<noteq> None" using assms(2) that by (simp add: list_all_iff)
    ultimately show ?thesis by (simp add: supported_at_def)
  qed
  then have "list_all (supported_at p) (map fst p)" by (simp add: list_all_iff)
  then have "p2d_loop (map fst p) \<lparr>p2d_p = p, p2d_rv = []\<rparr> =
      (Normal, \<lparr>p2d_p = p, p2d_rv = read_back p (map fst p) []\<rparr>)"
    using p2d_loop_supported [of "\<lparr>p2d_p = p, p2d_rv = []\<rparr>" "map fst p"] by simp
  then show ?thesis by (simp add: paramToDict_def paramToDict_exec_def getKeys_def)
qed

lemma exact_constructed: "exact v \<Longrightarrow> constructed dm v \<noteq> None"
  by (cases v) (simp_all add: fits_int_long)

lemma exact_returned: "exact v \<Longrightarrow> returned (the (constructed dm v)) = Some v"
  by (cases v) (simp_all add: fits_int_long narrow_fits c_str_nul_free)



lemma d2p_body_Normal_constructed:
  assumes "d2p_body dm (k, v) st = (Normal, st')" "tested dm v"
  shows "constructed dm v \<noteq> None"
proof (cases v)
  case (PyInt n)
  show ?thesis
  proof (cases "fits (long_bits dm) n")
    case True
    with PyInt show ?thesis by simp
  next
    case False
    with assms(1) PyInt d2p_body_overflow [of dm n k st] show ?thesis by simp
  qed
qed (use assms(2) in \<open>simp_all add: tested_def\<close>)

lemma d2p_entry_stored:
  assumes "d2p_loop dm (pre @ (k, v) # post) st0 = (Normal, st')"
    and "c_str k \<notin> c_str ` fst ` set post"
    and "tested dm v"
  shows "\<exists>d. constructed dm v = Some d \<and> map_of (d2p_p st') (c_str k) = Some d"
proof -
  obtain r1 st1 where l1: "d2p_loop dm pre st0 = (r1, st1)" by (cases "d2p_loop dm pre st0")
  have r1: "r1 = Normal" using assms(1) l1 by (cases r1) (simp_all add: d2p_loop_append)
  obtain r2 st2 where b: "d2p_body dm (k, v) st1 = (r2, st2)"
    by (cases "d2p_body dm (k, v) st1")
  have r2: "r2 = Normal" using assms(1) l1 r1 b by (cases r2) (simp_all add: d2p_loop_append)
  have l3: "d2p_loop dm post st2 = (Normal, st')"
    using assms(1) l1 r1 b r2 by (simp add: d2p_loop_append)
  from d2p_body_Normal_constructed [OF b [unfolded r2] assms(3)]
  obtain d where d: "constructed dm v = Some d" by auto
  have "d2p_p st2 = setValue (c_str k) d (d2p_p st1)"
    using b d2p_body_constructed [OF d, of k st1] by auto
  then have "map_of (d2p_p st2) (c_str k) = Some d" by (simp add: setValue_def update_conv')
  with d2p_loop_keep [OF l3 assms(2)] d show ?thesis by simp
qed


lemma exec_of_Return:
  "dictToParam dm h m = Return q \<Longrightarrow>
   (\<exists>st'. d2p_loop dm m \<lparr>d2p_dd = m, d2p_p = [], d2p_dv = None, d2p_temps = None, d2p_heap = h\<rparr>
           = (Normal, st') \<and> d2p_p st' = q)
   \<or> (\<exists>e st'. d2p_loop dm m \<lparr>d2p_dd = m, d2p_p = [], d2p_dv = None, d2p_temps = None,
               d2p_heap = h\<rparr> = (Raised e, st') \<and> q = [])"
  by (auto simp: dictToParam_def dictToParam_exec_def split: prod.splits status.splits)

lemma d2p_body_Raised:
  assumes "d2p_body dm (k, v) st = (Raised e, st')"
  shows "overflows dm v"
  using assms
  by (cases v)
     (auto simp: d2p_body_def and_then_def if_int_def if_float_def if_str_def store_def
        new_dv_def new_obj_def Let_def
        split: if_splits option.splits obj.splits)

lemma d2p_loop_Raised:
  assumes "d2p_loop dm xs st = (Raised e, st')"
  shows "\<not> list_all (\<lambda>kv. \<not> overflows dm (snd kv)) xs"
  using assms
proof (induction xs arbitrary: st)
  case Nil
  then show ?case by simp
next
  case (Cons kv xs)
  obtain k v where kv: "kv = (k, v)" by (cases kv)
  obtain r st1 where b: "d2p_body dm (k, v) st = (r, st1)" by (cases "d2p_body dm (k, v) st")
  show ?case
  proof (cases r)
    case Normal
    with Cons.prems b kv have "d2p_loop dm xs st1 = (Raised e, st')" by simp
    from Cons.IH [OF this] show ?thesis by simp
  next
    case (Raised e')
    with b have "overflows dm v" using d2p_body_Raised by blast
    with kv show ?thesis by simp
  next
    case WildDeref
    with Cons.prems b kv show ?thesis by simp
  qed
qed





lemma live_append: "live (h @ h') = live h @ live h'"
  by (simp add: live_def)

lemma live_allocs:
  "live (allocs dm xs) = map (\<lambda>kv. DataValueObj (the (constructed dm (snd kv)))) xs"
  by (induction xs) (simp_all add: live_def allocs_def)

lemma dictToParam_keeps_every_dv:
  assumes "all_constructed dm m"
  shows "live (d2p_heap (snd (dictToParam_exec dm h m)))
       = live h @ map (\<lambda>kv. DataValueObj (the (constructed dm (snd kv)))) m"
proof -
  let ?st0 = "\<lparr>d2p_dd = m, d2p_p = [], d2p_dv = None, d2p_temps = None, d2p_heap = h\<rparr>"
  from d2p_loop_constructed [OF assms, of ?st0] obtain st' where
    "d2p_loop dm m ?st0 = (Normal, st')" "d2p_heap st' = h @ allocs dm m"
    by auto
  then show ?thesis by (simp add: dictToParam_exec_def live_append live_allocs)
qed


section \<open>The claims\<close>


text \<open>
  C1 (as amended). For every mapping with distinct keys, whose keys contain no NUL byte
  and whose values are floats, texts without NUL byte, or integers in the range of a C
  int, converting to a container with dictToParam and back with paramToDict returns the
  mapping itself: the same keys, the same values, the same scalar kind for each key.
\<close>

theorem roundtrip_exact:
  assumes "distinct (map fst m)"
    and "list_all (\<lambda>kv. nul_free (fst kv) \<and> exact (snd kv)) m"
  shows "roundtrip dm h m = Return m"
proof -
  let ?p = "map (\<lambda>kv. (fst kv, the (constructed dm (snd kv)))) m"
  have nf: "list_all (\<lambda>kv. nul_free (fst kv)) m"
    and ex: "\<And>kv. kv \<in> set m \<Longrightarrow> exact (snd kv)"
    using assms(2) by (simp_all add: list_all_iff)
  have "all_constructed dm m"
    unfolding all_constructed_def list_all_iff using ex exact_constructed by blast
  then have d: "dictToParam dm h m = Return ?p"
    using built_fresh [OF assms(1) nf] by (simp add: dictToParam_constructed)
  have keys: "map fst ?p = map fst m" by (simp add: comp_def)
  have dist: "distinct (map fst ?p)" using assms(1) by (simp add: comp_def)
  have sup: "list_all (\<lambda>kd. returned (snd kd) \<noteq> None) ?p"
    using ex by (simp add: list_all_iff exact_returned)
  have nf': "list_all (\<lambda>kd. nul_free (fst kd)) ?p"
    using nf by (simp add: list_all_iff)
  have inv: "map (\<lambda>kd. (fst kd, the (returned (snd kd)))) ?p = m"
  proof -
    have "map (\<lambda>kd. (fst kd, the (returned (snd kd)))) ?p =
        map (\<lambda>kv. (fst kv, the (returned (the (constructed dm (snd kv)))))) m"
      by (simp add: comp_def)
    also have "\<dots> = map (\<lambda>kv. kv) m"
      by (rule map_cong) (simp_all add: ex exact_returned)
    finally show ?thesis by simp
  qed
  have "paramToDict ?p = Return m"
    using paramToDict_supported [OF dist sup] read_back_fresh [OF dist nf'] inv by simp
  then show ?thesis using d by (simp add: roundtrip_def)
qed


theorem roundtrip_exact_witness:
  "distinct (map fst [(''tolerance'', PyFloat 0x3FA999999999999A), (''iterations'', PyInt 10),
       (''mode'', PyStr ''fast'')])
   \<and> list_all (\<lambda>kv. nul_free (fst kv) \<and> exact (snd kv))
       [(''tolerance'', PyFloat 0x3FA999999999999A), (''iterations'', PyInt 10),
        (''mode'', PyStr ''fast'')]
   \<and> roundtrip LONG64 []
       [(''tolerance'', PyFloat 0x3FA999999999999A), (''iterations'', PyInt 10),
        (''mode'', PyStr ''fast'')]
     = Return [(''tolerance'', PyFloat 0x3FA999999999999A), (''iterations'', PyInt 10),
        (''mode'', PyStr ''fast'')]"
proof -
  let ?m = "[(''tolerance'', PyFloat 0x3FA999999999999A), (''iterations'', PyInt 10),
       (''mode'', PyStr ''fast'')]"
  have d: "distinct (map fst ?m)" by simp
  have e: "list_all (\<lambda>kv. nul_free (fst kv) \<and> exact (snd kv)) ?m"
    by (simp add: nul_free_def fits_def int_bits_def)
  from roundtrip_exact [OF d e, of LONG64 "[]"] d e show ?thesis by simp
qed

text \<open>
  C1 as stated fails on each restriction of the amended claim. The integer \<open>2 ^ 63\<close> does
  not fit a C long on either platform: the cast of line 36 raises, the function cannot
  pass the exception on and returns an empty container, and the round trip gives the
  empty mapping. The integer \<open>2 ^ 31\<close> fits a 64 bit long, is stored, and comes back
  through the C int of line 18 as another number. A key with a NUL byte comes back cut at
  that byte (line 41), and so does a text value (line 40).
\<close>

theorem roundtrip_counterexample:
  "roundtrip LONG64 [] [(''n'', PyInt 9223372036854775808)] = Return []
   \<and> roundtrip LONG32 [] [(''n'', PyInt 9223372036854775808)] = Return []
   \<and> roundtrip LONG64 [] [(''n'', PyInt 2147483648)] = Return [(''n'', PyInt (- 2147483648))]
   \<and> roundtrip LONG64 [] [([CHR ''a'', CHR 0x00, CHR ''b''], PyInt 1)] = Return [(''a'', PyInt 1)]
   \<and> roundtrip LONG64 [] [(''k'', PyStr [CHR ''x'', CHR 0x00, CHR ''y''])]
       = Return [(''k'', PyStr ''x'')]"
  by code_simp

text \<open>
  C2 (as amended). A mapping whose values are booleans, floats, texts or integers in the
  range of a C long is not rejected: dictToParam returns a container, and its keys are
  the keys of the mapping, each cut at its first NUL byte. A boolean passes the test of
  line 35, as \<open>constructed\<close> shows. What happens to a value that passes none of the
  three tests is the subject of C10.
\<close>

theorem booleans_accepted:
  assumes "all_constructed dm m"
  shows "\<exists>q. dictToParam dm h m = Return q \<and> fst ` set q = c_str ` fst ` set m"
  using dictToParam_constructed [OF assms, of h] by (simp add: built_keys)

theorem booleans_accepted_witness:
  "all_constructed LONG32 [(''flag'', PyBool True), (''mode'', PyStr ''fast'')]
   \<and> (\<exists>q. dictToParam LONG32 [] [(''flag'', PyBool True), (''mode'', PyStr ''fast'')] = Return q
         \<and> fst ` set q = c_str ` fst ` set [(''flag'', PyBool True), (''mode'', PyStr ''fast'')])"
proof -
  have a: "all_constructed LONG32 [(''flag'', PyBool True), (''mode'', PyStr ''fast'')]"
    by (simp add: all_constructed_def)
  from booleans_accepted [OF a, of "[]"] a show ?thesis by blast
qed

text \<open>
  C2 as stated fails on its own example: the mapping \<^verbatim>\<open>{"flag": True}\<close> is converted
  to a container with one Integer entry, on both platforms.
\<close>

theorem boolean_counterexample:
  "dictToParam LONG32 [] [(''flag'', PyBool True)] = Return [(''flag'', DataValue_long 1)]
   \<and> dictToParam LONG64 [] [(''flag'', PyBool True)] = Return [(''flag'', DataValue_long 1)]"
  by code_simp

text \<open>
  C3 (as amended). For every container with unique keys that holds a value whose tag is
  not Text, Integer or Real, paramToDict stops at line 22 with an error: no mapping is
  returned, partial or coerced. The error is the TypeError by which the raise statement
  refuses its string operand; its text is fixed and carries neither the key nor the tag,
  nor the text \<^verbatim>\<open>not implemented !\<close>.
\<close>

theorem unsupported_tag_raises:
  assumes "distinct (map fst p)" "(k, d) \<in> set p" "kind_of_dv d = None"
  shows "paramToDict p = Raise (TypeErrorMsg ''raise: exception class must be a subclass of BaseException'')"
proof -
  let ?st0 = "\<lparr>p2d_p = p, p2d_rv = []\<rparr>"
  have look: "map_of p k = Some d" using assms(2) by (rule map_of_is_SomeI [OF assms(1)])
  have dom: "list_all (\<lambda>k. map_of (p2d_p ?st0) k \<noteq> None) (map fst p)"
    by (simp add: list_all_iff map_of_eq_None_iff)
  have k: "k \<in> set (map fst p)" using assms(2) by force
  have ns: "\<not> supported_at (p2d_p ?st0) k"
    using look assms(3) returned_kind [of d] by (simp add: supported_at_def)
  have "fst (p2d_loop (map fst p) ?st0) = Raised (raise_str ''not implemented !'')"
    using dom k ns by (rule p2d_loop_unsupported)
  then show ?thesis
    by (cases "p2d_loop (map fst p) ?st0")
       (simp add: paramToDict_def paramToDict_exec_def getKeys_def raise_str_def)
qed

theorem unsupported_tag_raises_witness:
  "distinct (map fst [(''mode'', DataValue_chars ''fast''), (''list'', DataValue_other 3)])
   \<and> (''list'', DataValue_other 3)
       \<in> set [(''mode'', DataValue_chars ''fast''), (''list'', DataValue_other 3)]
   \<and> kind_of_dv (DataValue_other 3) = None
   \<and> paramToDict [(''mode'', DataValue_chars ''fast''), (''list'', DataValue_other 3)]
       = Raise (TypeErrorMsg ''raise: exception class must be a subclass of BaseException'')"
proof -
  have a: "distinct (map fst [(''mode'', DataValue_chars ''fast''), (''list'', DataValue_other 3)])"
    by simp
  have b: "(''list'', DataValue_other 3)
       \<in> set [(''mode'', DataValue_chars ''fast''), (''list'', DataValue_other 3)]"
    by simp
  have c: "kind_of_dv (DataValue_other 3) = None" by simp
  from unsupported_tag_raises [OF a b c] a b c show ?thesis by blast
qed

text \<open>
  C3 as stated asks for an error that identifies the offending key and the unsupported
  type. Two containers that differ in both give the same error value.
\<close>

theorem error_names_nothing_counterexample:
  "paramToDict [(''a'', DataValue_other 0)]
     = Raise (TypeErrorMsg ''raise: exception class must be a subclass of BaseException'')
   \<and> paramToDict [(''b'', DataValue_other 1)]
     = Raise (TypeErrorMsg ''raise: exception class must be a subclass of BaseException'')"
  by code_simp

text \<open>
  C4 (as amended). For every container with unique keys without NUL byte whose values all
  carry a Text, Integer or Real tag, paramToDict returns a mapping with as many entries
  and the same keys. For every mapping with distinct keys without NUL byte whose values
  are texts, floats or integers in the range of a C long, dictToParam returns a
  container with as many entries and the same keys. The empty mapping gives the empty
  container, and the empty container the empty mapping.
\<close>

theorem cardinality_in_range:
  "(distinct (map fst p)
      \<and> list_all (\<lambda>kd. nul_free (fst kd) \<and> kind_of_dv (snd kd) \<noteq> None) p
    \<longrightarrow> (\<exists>rv. paramToDict p = Return rv \<and> length rv = length p \<and> map fst rv = map fst p))
   \<and> (distinct (map fst m)
      \<and> list_all (\<lambda>kv. nul_free (fst kv) \<and> kind_of_py (snd kv) \<noteq> None
                      \<and> constructed dm (snd kv) \<noteq> None) m
    \<longrightarrow> (\<exists>q. dictToParam dm h m = Return q \<and> length q = length m \<and> map fst q = map fst m))
   \<and> dictToParam dm h [] = Return []
   \<and> paramToDict [] = Return []"
proof (intro conjI impI)
  assume a: "distinct (map fst p)
      \<and> list_all (\<lambda>kd. nul_free (fst kd) \<and> kind_of_dv (snd kd) \<noteq> None) p"
  then have d: "distinct (map fst p)" and nf: "list_all (\<lambda>kd. nul_free (fst kd)) p"
    by (simp_all add: list_all_iff)
  have sup: "list_all (\<lambda>kd. returned (snd kd) \<noteq> None) p"
    using a unfolding list_all_iff returned_kind by blast
  have "paramToDict p = Return (map (\<lambda>kd. (fst kd, the (returned (snd kd)))) p)"
    using paramToDict_supported [OF d sup] read_back_fresh [OF d nf] by simp
  then show "\<exists>rv. paramToDict p = Return rv \<and> length rv = length p \<and> map fst rv = map fst p"
    by (simp add: comp_def)
next
  assume a: "distinct (map fst m)
      \<and> list_all (\<lambda>kv. nul_free (fst kv) \<and> kind_of_py (snd kv) \<noteq> None
                      \<and> constructed dm (snd kv) \<noteq> None) m"
  then have d: "distinct (map fst m)" and nf: "list_all (\<lambda>kv. nul_free (fst kv)) m"
    by (simp_all add: list_all_iff)
  have ac: "all_constructed dm m"
    using a unfolding list_all_iff all_constructed_def by blast
  have "dictToParam dm h m = Return (map (\<lambda>kv. (fst kv, the (constructed dm (snd kv)))) m)"
    using dictToParam_constructed [OF ac, of h] built_fresh [OF d nf, of dm] by simp
  then show "\<exists>q. dictToParam dm h m = Return q \<and> length q = length m \<and> map fst q = map fst m"
    by (simp add: comp_def)
next
  show "dictToParam dm h [] = Return []"
    by (simp add: dictToParam_def dictToParam_exec_def)
next
  show "paramToDict [] = Return []"
    by (simp add: paramToDict_def paramToDict_exec_def getKeys_def)
qed

theorem cardinality_in_range_witness:
  "(distinct (map fst [(''mode'', DataValue_chars ''fast''), (''iterations'', DataValue_long 10)])
      \<and> list_all (\<lambda>kd. nul_free (fst kd) \<and> kind_of_dv (snd kd) \<noteq> None)
          [(''mode'', DataValue_chars ''fast''), (''iterations'', DataValue_long 10)])
   \<and> (\<exists>rv. paramToDict [(''mode'', DataValue_chars ''fast''), (''iterations'', DataValue_long 10)]
          = Return rv \<and> length rv = 2 \<and> map fst rv = [''mode'', ''iterations''])
   \<and> (distinct (map fst [(''tolerance'', PyFloat 0x3FA999999999999A), (''iterations'', PyInt 10)])
      \<and> list_all (\<lambda>kv. nul_free (fst kv) \<and> kind_of_py (snd kv) \<noteq> None
                      \<and> constructed LONG32 (snd kv) \<noteq> None)
          [(''tolerance'', PyFloat 0x3FA999999999999A), (''iterations'', PyInt 10)])
   \<and> (\<exists>q. dictToParam LONG32 [] [(''tolerance'', PyFloat 0x3FA999999999999A), (''iterations'', PyInt 10)]
          = Return q \<and> length q = 2 \<and> map fst q = [''tolerance'', ''iterations''])
   \<and> dictToParam LONG32 [] [] = Return []
   \<and> paramToDict [] = Return []"
proof -
  let ?p = "[(''mode'', DataValue_chars ''fast''), (''iterations'', DataValue_long 10)]"
  let ?m = "[(''tolerance'', PyFloat 0x3FA999999999999A), (''iterations'', PyInt 10)]"
  have a: "distinct (map fst ?p)
      \<and> list_all (\<lambda>kd. nul_free (fst kd) \<and> kind_of_dv (snd kd) \<noteq> None) ?p"
    by (simp add: nul_free_def)
  have b: "distinct (map fst ?m)
      \<and> list_all (\<lambda>kv. nul_free (fst kv) \<and> kind_of_py (snd kv) \<noteq> None
                      \<and> constructed LONG32 (snd kv) \<noteq> None) ?m"
    by (simp add: nul_free_def fits_def)
  from cardinality_in_range [of ?p ?m LONG32 "[]"] a b show ?thesis
    by (simp add: numeral_2_eq_2)
qed

text \<open>
  C4 as stated fails for a mapping of integers: \<open>2 ^ 63\<close> does not fit a C long, the
  cast of line 36 raises, and the call returns an empty container for a mapping of one
  entry. It fails for keys with a NUL byte in both directions: line 41 cuts the two keys
  of a mapping to \<^verbatim>\<open>a\<close>, lines 18 and 20 cut the two keys of a container to \<^verbatim>\<open>a\<close>, and
  two entries become one.
\<close>

theorem cardinality_counterexample:
  "dictToParam LONG32 [] [(''n'', PyInt 9223372036854775808)] = Return []
   \<and> dictToParam LONG64 [] [(''n'', PyInt 9223372036854775808)] = Return []
   \<and> dictToParam LONG64 []
        [([CHR ''a'', CHR 0x00, CHR ''b''], PyInt 1), ([CHR ''a'', CHR 0x00, CHR ''c''], PyInt 2)]
      = Return [(''a'', DataValue_long 2)]
   \<and> paramToDict
        [([CHR ''a'', CHR 0x00, CHR ''b''], DataValue_long 1),
         ([CHR ''a'', CHR 0x00, CHR ''c''], DataValue_double 5)]
      = Return [(''a'', PyFloat 5)]"
  by code_simp



text \<open>
  C6. Neither conversion writes to its input: in the final state of paramToDict the
  container is the one passed in, and in the final state of dictToParam the mapping is
  the one passed in, whether the call returned, raised, or stopped at the dereference
  of the unassigned pointer.
\<close>

theorem inputs_unchanged:
  "p2d_p (snd (paramToDict_exec p)) = p \<and> d2p_dd (snd (dictToParam_exec dm h dd)) = dd"
  by (simp add: paramToDict_exec_def dictToParam_exec_def p2d_loop_p d2p_loop_dd)

theorem inputs_unchanged_witness:
  "p2d_p (snd (paramToDict_exec [(''a'', DataValue_other 0)])) = [(''a'', DataValue_other 0)]
   \<and> d2p_dd (snd (dictToParam_exec LONG32 [] [(''n'', PyInt 9223372036854775808)]))
       = [(''n'', PyInt 9223372036854775808)]"
  using inputs_unchanged [of "[(''a'', DataValue_other 0)]" LONG32 "[]"
      "[(''n'', PyInt 9223372036854775808)]"]
  by simp

text \<open>
  C7 does not hold of the code. Line 43 releases \<^verbatim>\<open>temps\<close>, and nothing releases
  \<^verbatim>\<open>dv\<close>: called on \<^verbatim>\<open>{"a": 1}\<close> with an empty heap, dictToParam returns with the
  tagged value of line 36 still live, and so it does when a later entry raises. In
  general (\<open>dictToParam_keeps_every_dv\<close>) one tagged value per entry stays live.
\<close>

theorem dv_never_released:
  "dictToParam_exec LONG64 [] [(''a'', PyInt 1)] =
     (Normal, \<lparr>d2p_dd = [(''a'', PyInt 1)], d2p_p = [(''a'', DataValue_long 1)],
               d2p_dv = Some 0, d2p_temps = Some 1,
               d2p_heap = [Some (DataValueObj (DataValue_long 1)), None]\<rparr>)
   \<and> live (d2p_heap (snd (dictToParam_exec LONG64 [] [(''a'', PyInt 1)])))
       = [DataValueObj (DataValue_long 1)]
   \<and> fst (dictToParam_exec LONG64 [] [(''a'', PyInt 1), (''n'', PyInt 9223372036854775808)])
       = Raised OverflowError
   \<and> live (d2p_heap (snd (dictToParam_exec LONG64 []
         [(''a'', PyInt 1), (''n'', PyInt 9223372036854775808)])))
       = [DataValueObj (DataValue_long 1)]"
  by code_simp

text \<open>
  C8 does not hold of dictToParam. For \<^verbatim>\<open>{"k": None}\<close> the result is read through a
  pointer that was never assigned, so it is not a function of the mapping. And two
  enumerations of one and the same mapping, \<^verbatim>\<open>{"a": 1, "b": None, "c": "x"}\<close>, give two
  different containers: \<^verbatim>\<open>b\<close> takes the value of whichever entry came before it.
\<close>

theorem result_depends_on_more_than_the_mapping:
  "dictToParam LONG64 [] [(''k'', PyNone)] = Undefined
   \<and> map_of [(''a'', PyInt 1), (''b'', PyNone), (''c'', PyStr ''x'')]
       = map_of [(''c'', PyStr ''x''), (''b'', PyNone), (''a'', PyInt 1)]
   \<and> dictToParam LONG64 [] [(''a'', PyInt 1), (''b'', PyNone), (''c'', PyStr ''x'')]
       = Return [(''a'', DataValue_long 1), (''b'', DataValue_long 1), (''c'', DataValue_chars ''x'')]
   \<and> dictToParam LONG64 [] [(''c'', PyStr ''x''), (''b'', PyNone), (''a'', PyInt 1)]
       = Return [(''c'', DataValue_chars ''x''), (''b'', DataValue_chars ''x''), (''a'', DataValue_long 1)]"
proof -
  have "map_of [(''a'', PyInt 1), (''b'', PyNone), (''c'', PyStr ''x'')]
       = map_of [(''c'', PyStr ''x''), (''b'', PyNone), (''a'', PyInt 1)]"
    by (rule ext) simp
  moreover have "dictToParam LONG64 [] [(''k'', PyNone)] = Undefined" by code_simp
  moreover have "dictToParam LONG64 [] [(''a'', PyInt 1), (''b'', PyNone), (''c'', PyStr ''x'')]
       = Return [(''a'', DataValue_long 1), (''b'', DataValue_long 1), (''c'', DataValue_chars ''x'')]"
    by code_simp
  moreover have "dictToParam LONG64 [] [(''c'', PyStr ''x''), (''b'', PyNone), (''a'', PyInt 1)]
       = Return [(''c'', DataValue_chars ''x''), (''b'', DataValue_chars ''x''), (''a'', DataValue_long 1)]"
    by code_simp
  ultimately show ?thesis by blast
qed

text \<open>
  C9. A boolean passes the test of line 35: the loop body runs without error on a
  boolean entry and stores Integer 1 for true and Integer 0 for false under the key; so
  does the whole call on a mapping of one boolean entry, and on any mapping in which no
  integer is refused by the cast of line 36, when the call returns and no later key is
  equal up to the first NUL byte.
\<close>

theorem bool_stored_as_integer:
  "fst (d2p_body dm (k, PyBool b) st) = Normal
   \<and> d2p_p (snd (d2p_body dm (k, PyBool b) st))
       = setValue (c_str k) (DataValue_long (if b then 1 else 0)) (d2p_p st)
   \<and> dictToParam dm h [(k, PyBool b)] = Return [(c_str k, DataValue_long (if b then 1 else 0))]
   \<and> (dictToParam dm h (pre @ (k, PyBool b) # post) = Return q
        \<and> list_all (\<lambda>kv. \<not> overflows dm (snd kv)) (pre @ post)
        \<and> c_str k \<notin> c_str ` fst ` set post
      \<longrightarrow> map_of q (c_str k) = Some (DataValue_long (if b then 1 else 0)))"
proof (intro conjI impI)
  have c: "constructed dm (PyBool b) = Some (DataValue_long (if b then 1 else 0))" by simp
  show "fst (d2p_body dm (k, PyBool b) st) = Normal"
    by (simp add: d2p_body_constructed [OF c])
  show "d2p_p (snd (d2p_body dm (k, PyBool b) st))
       = setValue (c_str k) (DataValue_long (if b then 1 else 0)) (d2p_p st)"
    by (simp add: d2p_body_constructed [OF c])
  have "all_constructed dm [(k, PyBool b)]" by (simp add: all_constructed_def)
  from dictToParam_constructed [OF this, of h]
  show "dictToParam dm h [(k, PyBool b)] = Return [(c_str k, DataValue_long (if b then 1 else 0))]"
    by (simp add: built_def setValue_def)
next
  assume a: "dictToParam dm h (pre @ (k, PyBool b) # post) = Return q
        \<and> list_all (\<lambda>kv. \<not> overflows dm (snd kv)) (pre @ post)
        \<and> c_str k \<notin> c_str ` fst ` set post"
  let ?m = "pre @ (k, PyBool b) # post"
  let ?st0 = "\<lparr>d2p_dd = ?m, d2p_p = [], d2p_dv = None, d2p_temps = None, d2p_heap = h\<rparr>"
  have "list_all (\<lambda>kv. \<not> overflows dm (snd kv)) ?m" using a by simp
  then have "\<nexists>e st'. d2p_loop dm ?m ?st0 = (Raised e, st')"
    using d2p_loop_Raised by blast
  with a obtain st' where l: "d2p_loop dm ?m ?st0 = (Normal, st')" and q: "d2p_p st' = q"
    using exec_of_Return [of dm h ?m q] by auto
  have nk: "c_str k \<notin> c_str ` fst ` set post" using a by simp
  have t: "tested dm (PyBool b)" by (simp add: tested_def)
  from d2p_entry_stored [OF l nk t] q
  show "map_of q (c_str k) = Some (DataValue_long (if b then 1 else 0))" by auto
qed

theorem bool_stored_as_integer_witness:
  "dictToParam LONG64 [] ([(''mode'', PyStr ''fast'')] @ (''flag'', PyBool True) # [(''n'', PyInt 3)])
     = Return [(''mode'', DataValue_chars ''fast''), (''flag'', DataValue_long 1),
               (''n'', DataValue_long 3)]
   \<and> list_all (\<lambda>kv. \<not> overflows LONG64 (snd kv)) ([(''mode'', PyStr ''fast'')] @ [(''n'', PyInt 3)])
   \<and> c_str ''flag'' \<notin> c_str ` fst ` set [(''n'', PyInt 3)]
   \<and> map_of [(''mode'', DataValue_chars ''fast''), (''flag'', DataValue_long 1),
               (''n'', DataValue_long 3)] (c_str ''flag'') = Some (DataValue_long 1)"
proof -
  have a: "dictToParam LONG64 []
      ([(''mode'', PyStr ''fast'')] @ (''flag'', PyBool True) # [(''n'', PyInt 3)])
     = Return [(''mode'', DataValue_chars ''fast''), (''flag'', DataValue_long 1),
               (''n'', DataValue_long 3)]"
    by code_simp
  have b: "c_str ''flag'' \<notin> c_str ` fst ` set [(''n'', PyInt 3)]" by (simp add: c_str_def)
  have c: "list_all (\<lambda>kv. \<not> overflows LONG64 (snd kv))
      ([(''mode'', PyStr ''fast'')] @ [(''n'', PyInt 3)])"
    by (simp add: fits_def)
  from bool_stored_as_integer [where dm = LONG64 and k = "''flag''" and b = True
      and st = "\<lparr>d2p_dd = [], d2p_p = [], d2p_dv = None, d2p_temps = None, d2p_heap = []\<rparr>"
      and h = "[]" and pre = "[(''mode'', PyStr ''fast'')]" and post = "[(''n'', PyInt 3)]"
      and q = "[(''mode'', DataValue_chars ''fast''), (''flag'', DataValue_long 1),
                (''n'', DataValue_long 3)]"]
    a b c
  show ?thesis by simp
qed




end
